theory Spec2Isabelle
  imports Main
begin

section \<open>Data model\<close>

text \<open>
  \<^verbatim>\<open>time.Time\<close> is kept abstract as a count of seconds since the Unix epoch (the
  RFC 1123 layout carries whole seconds). The record keeps the field order of
  \<^verbatim>\<open>ArcDPSVersion\<close>; the embedded \<^verbatim>\<open>sync.RWMutex\<close> is never locked by the program and
  is not serialised (\<^verbatim>\<open>yaml:"-"\<close>).
\<close>

type_synonym time = int

record ArcDPSVersion =
  Timestamp :: time
  CheckSum :: string

text \<open>
  Every \<^verbatim>\<open>error\<close> value the program creates or passes on. The first three come from the
  standard library (\<^verbatim>\<open>http.NewRequestWithContext\<close>, \<^verbatim>\<open>http.Client.Do\<close>, \<^verbatim>\<open>io.ReadAll\<close>); the
  others are the program's own \<^verbatim>\<open>fmt.Errorf\<close> values, with the arguments of the format.
\<close>

datatype error =
    NewRequestError string
  | DoError string
  | ReadAllError string
  | BadResponseDelta string
  | UnableToParseTime string
  | IncorrectSplit
  | BadResponseDiscord int string
  | EncodeError string

text \<open>
  What the network answers to one request: the request could not be built, \<^verbatim>\<open>Do\<close> failed
  (dial failure, the 5 second timeout, a cancelled context), or a response arrived.
  \<^verbatim>\<open>Body\<close> is the outcome of \<^verbatim>\<open>io.ReadAll(resp.Body)\<close>; \<^verbatim>\<open>Last_Modified\<close> is
  \<^verbatim>\<open>resp.Header.Get("Last-Modified")\<close>, empty when the header is absent.
\<close>

record Response =
  StatusCode :: int
  Last_Modified :: string
  Body :: "error + string"

datatype http_reply =
    NoRequest error
  | NoResponse error
  | Reply Response

text \<open>
  The observable actions of the program, in order: entering one of the three methods of
  \<^verbatim>\<open>Server\<close>, a request handed to \<^verbatim>\<open>s.http.Do\<close> (method, URL, body), and the log lines.
\<close>

datatype event =
    Called string "string list"
  | HTTP string string string
  | Infof string
  | Errorf string error
  | TickerStop

text \<open>The functions of the standard library the program calls on a \<^verbatim>\<open>time.Time\<close>.\<close>

record stdlib =
  time_Parse_RFC1123 :: "string \<Rightarrow> time option"
  time_String :: "time \<Rightarrow> string"

record Server =
  webhookURL :: string

definition ArcDpsURL :: string where
  "ArcDpsURL = ''https://www.deltaconnected.com/arcdps/x64/''"

definition ArcDPSCheckSumURL :: string where
  "ArcDPSCheckSumURL = ArcDpsURL @ ''d3d9.dll.md5sum''"

definition ArcDPSDLLURL :: string where
  "ArcDPSDLLURL = ArcDpsURL @ ''d3d9.dll''"

text \<open>\<^verbatim>\<open>DefaultTickDuration.String()\<close> for ten minutes.\<close>

definition DefaultTickDuration_String :: string where
  "DefaultTickDuration_String = ''10m0s''"

section \<open>strings.Split\<close>

text \<open>
  \<^verbatim>\<open>strings.Split(s, sep)\<close> for a separator of one byte, following the loop of the
  library: find the next separator, cut there, go on with the rest; the last piece is
  what remains. The empty string gives one empty piece.
\<close>

function strings_Split :: "string \<Rightarrow> char \<Rightarrow> string list" where
  "strings_Split s sep =
     (case dropWhile (\<lambda>c. c \<noteq> sep) s of
        [] \<Rightarrow> [s]
      | _ # rest \<Rightarrow> takeWhile (\<lambda>c. c \<noteq> sep) s # strings_Split rest sep)"
  by pat_completeness auto
termination
proof (relation "measure (\<lambda>(s, sep). length s)")
  show "wf (measure (\<lambda>(s, sep). length s))" by simp
next
  fix s :: string and sep x rest
  assume "dropWhile (\<lambda>c. c \<noteq> sep) s = x # rest"
  then have "length rest < length (dropWhile (\<lambda>c. c \<noteq> sep) s)" by simp
  also have "\<dots> \<le> length s" by (rule length_dropWhile_le)
  finally show "((rest, sep), (s, sep)) \<in> measure (\<lambda>(s, sep). length s)" by simp
qed

declare strings_Split.simps [simp del]

section \<open>Remote Checker\<close>

text \<open>\<^verbatim>\<open>GetChecksum\<close> of \<^verbatim>\<open>cmd/arcmon/main.go\<close>: GET the checksum resource, split the body.\<close>

definition GetChecksum :: "http_reply \<Rightarrow> event list \<times> (error + string)" where
  "GetChecksum w =
     (case w of
        NoRequest err \<Rightarrow> ([Called ''GetChecksum'' []], Inl err)
      | NoResponse err \<Rightarrow>
          ([Called ''GetChecksum'' [], HTTP ''GET'' ArcDPSCheckSumURL ''''], Inl err)
      | Reply resp \<Rightarrow>
          ([Called ''GetChecksum'' [], HTTP ''GET'' ArcDPSCheckSumURL ''''],
           (case Body resp of
              Inl err \<Rightarrow> Inl err
            | Inr body \<Rightarrow>
                if StatusCode resp > 299 then Inl (BadResponseDelta body)
                else
                  (let checkSumSplit = strings_Split body (CHR '' '')
                   in if length checkSumSplit < 2 then Inl IncorrectSplit
                      else Inr (checkSumSplit ! 0)))))"

text \<open>\<^verbatim>\<open>GetVersion\<close>: HEAD the artifact, parse its \<^verbatim>\<open>Last-Modified\<close> header. The body is read
  only on a bad status.\<close>

definition GetVersion :: "stdlib \<Rightarrow> http_reply \<Rightarrow> event list \<times> (error + time)" where
  "GetVersion L w =
     (case w of
        NoRequest err \<Rightarrow> ([Called ''GetVersion'' []], Inl err)
      | NoResponse err \<Rightarrow>
          ([Called ''GetVersion'' [], HTTP ''HEAD'' ArcDPSDLLURL ''''], Inl err)
      | Reply resp \<Rightarrow>
          ([Called ''GetVersion'' [], HTTP ''HEAD'' ArcDPSDLLURL ''''],
           (if StatusCode resp > 299 then
              (case Body resp of
                 Inl err \<Rightarrow> Inl err
               | Inr body \<Rightarrow> Inl (BadResponseDelta body))
            else
              (case time_Parse_RFC1123 L (Last_Modified resp) of
                 None \<Rightarrow> Inl (UnableToParseTime (Last_Modified resp))
               | Some lastModified \<Rightarrow> Inr lastModified))))"

section \<open>Notifier\<close>

text \<open>
  \<^verbatim>\<open>PayloadJSON\<close>, cut at its three \<^verbatim>\<open>%s\<close> verbs; \<^verbatim>\<open>Sprintf_PayloadJSON\<close> is
  \<^verbatim>\<open>fmt.Sprintf(PayloadJSON, a, b, c)\<close> for string arguments, which are inserted as they are.
\<close>

definition PayloadJSON_0 :: string where
  \<open>PayloadJSON_0 =
     ''\<newline>{\<newline>'' @
     ''  "embeds": [\<newline>'' @
     ''    {\<newline>'' @
     ''      "title": "ArcDPS has updated!",\<newline>'' @
     ''      "color": 12124160,\<newline>'' @
     ''      "fields": [\<newline>'' @
     ''        {\<newline>'' @
     ''          "name": "Checksum",\<newline>'' @
     ''          "value": "''\<close>

definition PayloadJSON_1 :: string where
  \<open>PayloadJSON_1 =
     ''",\<newline>'' @
     ''          "inline": true\<newline>'' @
     ''        },\<newline>'' @
     ''        {\<newline>'' @
     ''          "name": "Timestamp Version",\<newline>'' @
     ''          "value": "''\<close>

definition PayloadJSON_2 :: string where
  \<open>PayloadJSON_2 =
     ''",\<newline>'' @
     ''          "inline": true\<newline>'' @
     ''        },\<newline>'' @
     ''        {\<newline>'' @
     ''          "name": "Direct Download Link",\<newline>'' @
     ''          "value": "https://www.deltaconnected.com/arcdps/x64/d3d9.dll"\<newline>'' @
     ''        }\<newline>'' @
     ''      ],\<newline>'' @
     ''      "author": {\<newline>'' @
     ''        "name": "ArcDPS Monitor",\<newline>'' @
     ''        "icon_url": "https://wiki.guildwars2.com/images/0/03/Specter_icon_(highres).png"\<newline>'' @
     ''      },\<newline>'' @
     ''      "footer": {\<newline>'' @
     ''        "text": "This bot checks every ''\<close>

definition PayloadJSON_3 :: string where
  \<open>PayloadJSON_3 =
     ''"\<newline>'' @
     ''      }\<newline>'' @
     ''    }\<newline>'' @
     ''  ]\<newline>'' @
     ''}''\<close>

definition Sprintf_PayloadJSON :: "string \<Rightarrow> string \<Rightarrow> string \<Rightarrow> string" where
  "Sprintf_PayloadJSON a b c =
     PayloadJSON_0 @ a @ PayloadJSON_1 @ b @ PayloadJSON_2 @ c @ PayloadJSON_3"

text \<open>\<^verbatim>\<open>fmt.Sprintf("`%s`", x)\<close>, the quoting \<^verbatim>\<open>Tick\<close> applies to both arguments.\<close>

definition Sprintf_backquoted :: "string \<Rightarrow> string" where
  \<open>Sprintf_backquoted x = ''`'' @ x @ ''`''\<close>

text \<open>
  \<^verbatim>\<open>SendWebHook\<close>: render the payload, POST it; a status above 299 is an error made of
  the status and the body (or the error of reading the body). The result is Go's
  \<^verbatim>\<open>error\<close>: \<open>None\<close> is \<^verbatim>\<open>nil\<close>.
\<close>

definition SendWebHook ::
  "Server \<Rightarrow> string \<Rightarrow> string \<Rightarrow> http_reply \<Rightarrow> event list \<times> error option" where
  "SendWebHook s checksum time w =
     (let payload = Sprintf_PayloadJSON checksum time DefaultTickDuration_String
      in case w of
           NoRequest err \<Rightarrow> ([Called ''SendWebHook'' [checksum, time]], Some err)
         | NoResponse err \<Rightarrow>
             ([Called ''SendWebHook'' [checksum, time], HTTP ''POST'' (webhookURL s) payload],
              Some err)
         | Reply resp \<Rightarrow>
             ([Called ''SendWebHook'' [checksum, time], HTTP ''POST'' (webhookURL s) payload],
              (if StatusCode resp > 299 then
                 (case Body resp of
                    Inl err \<Rightarrow> Some err
                  | Inr body \<Rightarrow> Some (BadResponseDiscord (StatusCode resp) body))
               else None)))"

section \<open>Poller\<close>

text \<open>What the network answers to the (at most) three requests of one tick.\<close>

record tick_world =
  checksum_reply :: http_reply
  version_reply :: http_reply
  webhook_reply :: http_reply

text \<open>
  The body of \<^verbatim>\<open>case <-ticker.C\<close> in \<^verbatim>\<open>Tick\<close>: the record \<^verbatim>\<open>s.arcdps\<close> goes in and comes
  out, with the events of the tick. Each \<^verbatim>\<open>continue\<close> ends the tick.
\<close>

definition tick ::
  "stdlib \<Rightarrow> Server \<Rightarrow> tick_world \<Rightarrow> ArcDPSVersion \<Rightarrow> ArcDPSVersion \<times> event list" where
  "tick L s w arcdps =
     (case GetChecksum (checksum_reply w) of
        (ev1, Inl err) \<Rightarrow> (arcdps, ev1 @ [Errorf ''Failed getting checksum: (%v)'' err])
      | (ev1, Inr check) \<Rightarrow>
          (case GetVersion L (version_reply w) of
             (ev2, Inl err) \<Rightarrow>
               (arcdps, ev1 @ ev2 @ [Errorf ''Failed getting version: (%v)'' err])
           | (ev2, Inr version) \<Rightarrow>
               if CheckSum arcdps = [] then
                 (arcdps\<lparr>CheckSum := check, Timestamp := version\<rparr>,
                  ev1 @ ev2 @ [Infof ''Setting initial version''])
               else if CheckSum arcdps \<noteq> check then
                 (case SendWebHook s (Sprintf_backquoted check)
                         (Sprintf_backquoted (time_String L version)) (webhook_reply w) of
                    (ev3, None) \<Rightarrow>
                      (arcdps\<lparr>CheckSum := check, Timestamp := version\<rparr>, ev1 @ ev2 @ ev3)
                  | (ev3, Some err) \<Rightarrow>
                      (arcdps\<lparr>CheckSum := check, Timestamp := version\<rparr>,
                       ev1 @ ev2 @ ev3 @ [Errorf ''unable to send webhook: (%v)\<newline>'' err]))
               else (arcdps, ev1 @ ev2)))"

text \<open>
  The \<^verbatim>\<open>for { select { ... } }\<close> loop of \<^verbatim>\<open>Tick\<close>, run over the sequence of cases the
  \<^verbatim>\<open>select\<close> takes: a tick of the ticker with what the network answers, or the
  cancellation of the context, which stops the ticker and returns. When the sequence is
  used up the loop is still waiting.
\<close>

datatype select_case = ticker_C tick_world | ctx_Done

datatype poller_state = Running | Stopped

fun Tick_loop ::
  "stdlib \<Rightarrow> Server \<Rightarrow> select_case list \<Rightarrow> ArcDPSVersion \<Rightarrow> event list
     \<Rightarrow> poller_state \<times> ArcDPSVersion \<times> event list" where
  "Tick_loop L s [] arcdps tr = (Running, arcdps, tr)"
| "Tick_loop L s (ctx_Done # cs) arcdps tr = (Stopped, arcdps, tr @ [TickerStop])"
| "Tick_loop L s (ticker_C w # cs) arcdps tr =
     (case tick L s w arcdps of (arcdps', ev) \<Rightarrow> Tick_loop L s cs arcdps' (tr @ ev))"

definition Tick ::
  "stdlib \<Rightarrow> Server \<Rightarrow> select_case list \<Rightarrow> ArcDPSVersion
     \<Rightarrow> poller_state \<times> ArcDPSVersion \<times> event list" where
  "Tick L s cs arcdps = Tick_loop L s cs arcdps [Infof ''Starting Check Ticker'']"

section \<open>The single-request variant\<close>

text \<open>
  The second variant of the program (\<^verbatim>\<open>src/unnamed/part_000\<close>) has no \<^verbatim>\<open>GetVersion\<close>: its
  \<^verbatim>\<open>GetChecksum\<close> takes the timestamp from the \<^verbatim>\<open>Last-Modified\<close> header of the checksum
  response, before it splits the body, and returns both in a \<^verbatim>\<open>Checksum\<close> struct.
\<close>

record Checksum =
  Checksum :: string
  LastModified :: time

definition GetChecksum_part000 ::
  "stdlib \<Rightarrow> http_reply \<Rightarrow> event list \<times> (error + Checksum)" where
  "GetChecksum_part000 L w =
     (case w of
        NoRequest err \<Rightarrow> ([Called ''GetChecksum'' []], Inl err)
      | NoResponse err \<Rightarrow>
          ([Called ''GetChecksum'' [], HTTP ''GET'' ArcDPSCheckSumURL ''''], Inl err)
      | Reply resp \<Rightarrow>
          ([Called ''GetChecksum'' [], HTTP ''GET'' ArcDPSCheckSumURL ''''],
           (case Body resp of
              Inl err \<Rightarrow> Inl err
            | Inr body \<Rightarrow>
                if StatusCode resp > 299 then Inl (BadResponseDelta body)
                else
                  (case time_Parse_RFC1123 L (Last_Modified resp) of
                     None \<Rightarrow> Inl (UnableToParseTime (Last_Modified resp))
                   | Some lastModified \<Rightarrow>
                       (let checkSumSplit = strings_Split body (CHR '' '')
                        in if length checkSumSplit < 2 then Inl IncorrectSplit
                           else Inr \<lparr>Checksum = checkSumSplit ! 0,
                                     LastModified = lastModified\<rparr>)))))"

definition tick_part000 ::
  "stdlib \<Rightarrow> Server \<Rightarrow> tick_world \<Rightarrow> ArcDPSVersion \<Rightarrow> ArcDPSVersion \<times> event list" where
  "tick_part000 L s w arcdps =
     (case GetChecksum_part000 L (checksum_reply w) of
        (ev1, Inl err) \<Rightarrow> (arcdps, ev1 @ [Errorf ''Failed getting checksum: (%v)'' err])
      | (ev1, Inr check) \<Rightarrow>
          if CheckSum arcdps = [] then
            (arcdps\<lparr>CheckSum := Checksum check, Timestamp := LastModified check\<rparr>,
             ev1 @ [Infof ''Setting initial version''])
          else if CheckSum arcdps \<noteq> Checksum check then
            (case SendWebHook s (Sprintf_backquoted (Checksum check))
                    (Sprintf_backquoted (time_String L (LastModified check)))
                    (webhook_reply w) of
               (ev3, None) \<Rightarrow>
                 (arcdps\<lparr>CheckSum := Checksum check, Timestamp := LastModified check\<rparr>,
                  ev1 @ ev3)
             | (ev3, Some err) \<Rightarrow>
                 (arcdps\<lparr>CheckSum := Checksum check, Timestamp := LastModified check\<rparr>,
                  ev1 @ ev3 @ [Errorf ''unable to send webhook: (%v)\<newline>'' err]))
          else (arcdps, ev1))"

section \<open>State Store\<close>

text \<open>
  The tracking file as \<^verbatim>\<open>main\<close> holds it: opened once with \<^verbatim>\<open>O_RDWR|O_CREATE\<close> (no
  \<^verbatim>\<open>O_TRUNC\<close>, no \<^verbatim>\<open>O_APPEND\<close>), so a descriptor with the bytes of the file and a position.
  \<^verbatim>\<open>Seek(off, 0)\<close> sets the position; a write puts its bytes at the position, over the
  bytes that are there, extends the file when it runs past the end (a position beyond
  the end leaves a gap of zero bytes), and moves the position on.
\<close>

record File =
  contents :: string
  offset :: nat

definition Seek :: "File \<Rightarrow> nat \<Rightarrow> File" where
  "Seek f off = f\<lparr>offset := off\<rparr>"

definition Write :: "File \<Rightarrow> string \<Rightarrow> File" where
  "Write f b =
     f\<lparr>contents := take (offset f) (contents f)
                    @ replicate (offset f - length (contents f)) (CHR 0x00)
                    @ b
                    @ drop (offset f + length b) (contents f),
       offset := offset f + length b\<rparr>"

text \<open>
  \<^verbatim>\<open>yaml.NewEncoder(f).Encode(arcdps)\<close>: the document the encoder renders for the record
  (a function of the library, \<open>marshal\<close>) is written to the file; \<open>os\<close> is the error of
  the write, if the system reports one.
\<close>

definition Encode ::
  "(ArcDPSVersion \<Rightarrow> string) \<Rightarrow> error option \<Rightarrow> File \<Rightarrow> ArcDPSVersion \<Rightarrow> error + File" where
  "Encode marshal os f arcdps =
     (case os of
        Some err \<Rightarrow> Inl err
      | None \<Rightarrow> Inr (Write f (marshal arcdps)))"

text \<open>
  The end of \<^verbatim>\<open>main\<close>, after the signal: rewind, encode, close. \<open>Inl\<close> is the
  \<^verbatim>\<open>logrus.Fatalf("unable to save file: (%v)", err)\<close> exit; \<open>Inr\<close> is the file as it is
  closed.
\<close>

definition main_save ::
  "(ArcDPSVersion \<Rightarrow> string) \<Rightarrow> error option \<Rightarrow> File \<Rightarrow> ArcDPSVersion \<Rightarrow> error + File" where
  "main_save marshal os f arcdps = Encode marshal os (Seek f 0) arcdps"

section \<open>Observations on a trace\<close>

text \<open>The invocations of \<^verbatim>\<open>SendWebHook\<close> in a trace, each with its two arguments.\<close>

fun notifications :: "event list \<Rightarrow> string list list" where
  "notifications [] = []"
| "notifications (Called f args # tr) =
     (if f = ''SendWebHook'' then args # notifications tr else notifications tr)"
| "notifications (e # tr) = notifications tr"

text \<open>The POST requests in a trace: URL and body.\<close>

fun posts :: "event list \<Rightarrow> (string \<times> string) list" where
  "posts [] = []"
| "posts (HTTP m url body # tr) =
     (if m = ''POST'' then (url, body) # posts tr else posts tr)"
| "posts (e # tr) = posts tr"

section \<open>The specification's reading of the checksum body\<close>

text \<open>
  The specification calls the body whitespace-delimited text. Its tokens are the maximal
  runs of bytes that are not white space (space, tab, line feed, vertical tab, form feed,
  carriage return).
\<close>

definition spec_is_whitespace :: "char \<Rightarrow> bool" where
  "spec_is_whitespace c \<longleftrightarrow>
     c \<in> set [CHR '' '', CHR 0x09, CHR 0x0A, CHR 0x0B, CHR 0x0C, CHR 0x0D]"

fun spec_tokens_from :: "string \<Rightarrow> string \<Rightarrow> string list" where
  "spec_tokens_from cur [] = (if cur = [] then [] else [rev cur])"
| "spec_tokens_from cur (c # cs) =
     (if spec_is_whitespace c
      then (if cur = [] then spec_tokens_from [] cs else rev cur # spec_tokens_from [] cs)
      else spec_tokens_from (c # cur) cs)"

definition spec_whitespace_tokens :: "string \<Rightarrow> string list" where
  "spec_whitespace_tokens body = spec_tokens_from [] body"

section \<open>Sample values of the library functions\<close>

text \<open>
  The library functions at the two timestamps the examples below use:
  \<^verbatim>\<open>time.Parse(time.RFC1123, _)\<close>, \<^verbatim>\<open>Time.String()\<close> and the YAML document of the encoder.
  Any other header is taken as unparsable.
\<close>

definition sample_Parse :: "string \<Rightarrow> time option" where
  "sample_Parse h =
     (if h = ''Tue, 01 Mar 2022 12:00:00 GMT'' then Some 1646136000
      else if h = ''Wed, 02 Mar 2022 08:30:00 GMT'' then Some 1646209800
      else None)"

definition sample_String :: "time \<Rightarrow> string" where
  "sample_String t =
     (if t = 1646136000 then ''2022-03-01 12:00:00 +0000 GMT''
      else if t = 1646209800 then ''2022-03-02 08:30:00 +0000 GMT''
      else ''0001-01-01 00:00:00 +0000 UTC'')"

definition sample_lib :: stdlib where
  "sample_lib = \<lparr>time_Parse_RFC1123 = sample_Parse, time_String = sample_String\<rparr>"

definition sample_marshal :: "ArcDPSVersion \<Rightarrow> string" where
  "sample_marshal a =
     ''timestamp: ''
       @ (if Timestamp a = 1646136000 then ''2022-03-01T12:00:00Z''
          else if Timestamp a = 1646209800 then ''2022-03-02T08:30:00Z''
          else ''0001-01-01T00:00:00Z'')
       @ ''\<newline>check_sum: '' @ CheckSum a @ ''\<newline>''"

text \<open>The zero \<^verbatim>\<open>time.Time\<close> (January 1, year 1, 00:00 UTC), which a fresh record holds.\<close>

definition zero_Time :: time where
  "zero_Time = - 62135596800"

definition sample_server :: Server where
  "sample_server = \<lparr>webhookURL = ''https://discord.example/api/webhooks/1/token''\<rparr>"

text \<open>A 200 response with the given \<^verbatim>\<open>Last-Modified\<close> header and body.\<close>

definition ok_reply :: "string \<Rightarrow> string \<Rightarrow> http_reply" where
  "ok_reply h body = Reply \<lparr>StatusCode = 200, Last_Modified = h, Body = Inr body\<rparr>"

definition sample_world :: "string \<Rightarrow> string \<Rightarrow> http_reply \<Rightarrow> tick_world" where
  "sample_world h body post =
     \<lparr>checksum_reply = ok_reply h body, version_reply = ok_reply h [], webhook_reply = post\<rparr>"

section \<open>Facts about strings.Split\<close>

lemma strings_Split_no_sep:
  assumes "sep \<notin> set s"
  shows "strings_Split s sep = [s]"
proof -
  have "dropWhile (\<lambda>c. c \<noteq> sep) s = []"
    using assms by (auto simp: dropWhile_eq_Nil_conv)
  then show ?thesis
    by (subst strings_Split.simps) (simp only: list.case)
qed

lemma strings_Split_sep:
  assumes "sep \<in> set s"
  shows "strings_Split s sep =
           takeWhile (\<lambda>c. c \<noteq> sep) s
             # strings_Split (tl (dropWhile (\<lambda>c. c \<noteq> sep) s)) sep"
proof -
  from assms have "dropWhile (\<lambda>c. c \<noteq> sep) s \<noteq> []"
    by (auto simp: dropWhile_eq_Nil_conv)
  then obtain x rest where "dropWhile (\<lambda>c. c \<noteq> sep) s = x # rest"
    by (cases "dropWhile (\<lambda>c. c \<noteq> sep) s") auto
  then show ?thesis
    by (subst strings_Split.simps) simp
qed

lemma strings_Split_nonempty: "strings_Split s sep \<noteq> []"
  by (subst strings_Split.simps) (simp split: list.splits)

text \<open>Fewer than two pieces means: the separator does not occur.\<close>

lemma strings_Split_length: "length (strings_Split s sep) < 2 \<longleftrightarrow> sep \<notin> set s"
proof (cases "sep \<in> set s")
  case True
  have "length (strings_Split (tl (dropWhile (\<lambda>c. c \<noteq> sep) s)) sep) > 0"
    using strings_Split_nonempty by simp
  then show ?thesis
    using True by (simp add: strings_Split_sep)
next
  case False
  then show ?thesis
    by (simp add: strings_Split_no_sep)
qed

text \<open>The first piece is what stands before the first separator.\<close>

lemma strings_Split_first: "strings_Split s sep ! 0 = takeWhile (\<lambda>c. c \<noteq> sep) s"
proof (cases "sep \<in> set s")
  case True
  then show ?thesis
    by (simp add: strings_Split_sep)
next
  case False
  then have "takeWhile (\<lambda>c. c \<noteq> sep) s = s"
    by (auto simp: takeWhile_eq_all_conv)
  moreover have "strings_Split s sep = [s]"
    using False by (rule strings_Split_no_sep)
  ultimately show ?thesis
    by (simp only: nth_Cons_0)
qed

section \<open>Facts about traces and the Remote Checker\<close>

lemma notifications_append: "notifications (xs @ ys) = notifications xs @ notifications ys"
  by (induction xs rule: notifications.induct) simp_all

lemma posts_append: "posts (xs @ ys) = posts xs @ posts ys"
  by (induction xs rule: posts.induct) simp_all

lemma GetChecksum_quiet:
  "notifications (fst (GetChecksum w)) = [] \<and> posts (fst (GetChecksum w)) = []"
  by (simp add: GetChecksum_def split: http_reply.splits)

lemma GetVersion_quiet:
  "notifications (fst (GetVersion L w)) = [] \<and> posts (fst (GetVersion L w)) = []"
  by (simp add: GetVersion_def split: http_reply.splits)

lemma GetChecksum_part000_quiet:
  "notifications (fst (GetChecksum_part000 L w)) = []
   \<and> posts (fst (GetChecksum_part000 L w)) = []"
  by (simp add: GetChecksum_part000_def split: http_reply.splits)

lemma SendWebHook_notifications:
  "notifications (fst (SendWebHook s checksum time w)) = [[checksum, time]]"
  by (simp add: SendWebHook_def Let_def split: http_reply.splits)

lemma SendWebHook_posts:
  "posts (fst (SendWebHook s checksum time w))
     = (case w of
          NoRequest err \<Rightarrow> []
        | _ \<Rightarrow> [(webhookURL s, Sprintf_PayloadJSON checksum time DefaultTickDuration_String)])"
  by (simp add: SendWebHook_def Let_def split: http_reply.splits)

lemma log_tail_quiet:
  "notifications (case r of None \<Rightarrow> [] | Some err \<Rightarrow> [Errorf m err]) = []"
  "posts (case r of None \<Rightarrow> [] | Some err \<Rightarrow> [Errorf m err]) = []"
  by (simp_all split: option.splits)

text \<open>When the two fetches fail: every cause the functions distinguish.\<close>

lemma GetChecksum_error_iff:
  "isl (snd (GetChecksum w)) \<longleftrightarrow>
     (case w of
        NoRequest err \<Rightarrow> True
      | NoResponse err \<Rightarrow> True
      | Reply resp \<Rightarrow>
          (case Body resp of
             Inl err \<Rightarrow> True
           | Inr body \<Rightarrow> StatusCode resp > 299 \<or> CHR '' '' \<notin> set body))"
  by (simp add: GetChecksum_def Let_def strings_Split_length split: http_reply.splits sum.splits)

lemma GetVersion_error_iff:
  "isl (snd (GetVersion L w)) \<longleftrightarrow>
     (case w of
        NoRequest err \<Rightarrow> True
      | NoResponse err \<Rightarrow> True
      | Reply resp \<Rightarrow>
          StatusCode resp > 299 \<or> time_Parse_RFC1123 L (Last_Modified resp) = None)"
  by (simp add: GetVersion_def split: http_reply.splits sum.splits option.splits)

lemma GetChecksum_ok_reply:
  "CHR '' '' \<in> set body \<Longrightarrow>
     snd (GetChecksum (ok_reply h body)) = Inr (takeWhile (\<lambda>c. c \<noteq> CHR '' '') body)"
  by (simp add: GetChecksum_def ok_reply_def Let_def strings_Split_length strings_Split_first)

lemma GetVersion_ok_reply:
  "time_Parse_RFC1123 L h = Some t \<Longrightarrow> snd (GetVersion L (ok_reply h body)) = Inr t"
  by (simp add: GetVersion_def ok_reply_def)

section \<open>The five ways through one tick\<close>

lemma tick_checksum_error:
  assumes "snd (GetChecksum (checksum_reply w)) = Inl err"
  shows "tick L s w arcdps
           = (arcdps, fst (GetChecksum (checksum_reply w))
                        @ [Errorf ''Failed getting checksum: (%v)'' err])"
  using assms by (cases "GetChecksum (checksum_reply w)") (simp add: tick_def)

lemma tick_version_error:
  assumes "snd (GetChecksum (checksum_reply w)) = Inr check"
      and "snd (GetVersion L (version_reply w)) = Inl err"
  shows "tick L s w arcdps
           = (arcdps, fst (GetChecksum (checksum_reply w)) @ fst (GetVersion L (version_reply w))
                        @ [Errorf ''Failed getting version: (%v)'' err])"
  using assms
  by (cases "GetChecksum (checksum_reply w)"; cases "GetVersion L (version_reply w)")
     (simp add: tick_def)

lemma tick_initial:
  assumes "snd (GetChecksum (checksum_reply w)) = Inr check"
      and "snd (GetVersion L (version_reply w)) = Inr version"
      and "CheckSum arcdps = []"
  shows "tick L s w arcdps
           = (arcdps\<lparr>CheckSum := check, Timestamp := version\<rparr>,
              fst (GetChecksum (checksum_reply w)) @ fst (GetVersion L (version_reply w))
                @ [Infof ''Setting initial version''])"
  using assms
  by (cases "GetChecksum (checksum_reply w)"; cases "GetVersion L (version_reply w)")
     (simp add: tick_def)

lemma tick_changed:
  assumes "snd (GetChecksum (checksum_reply w)) = Inr check"
      and "snd (GetVersion L (version_reply w)) = Inr version"
      and "CheckSum arcdps \<noteq> []"
      and "CheckSum arcdps \<noteq> check"
  shows "tick L s w arcdps
           = (arcdps\<lparr>CheckSum := check, Timestamp := version\<rparr>,
              fst (GetChecksum (checksum_reply w)) @ fst (GetVersion L (version_reply w))
                @ fst (SendWebHook s (Sprintf_backquoted check)
                         (Sprintf_backquoted (time_String L version)) (webhook_reply w))
                @ (case snd (SendWebHook s (Sprintf_backquoted check)
                         (Sprintf_backquoted (time_String L version)) (webhook_reply w)) of
                     None \<Rightarrow> []
                   | Some err \<Rightarrow> [Errorf ''unable to send webhook: (%v)\<newline>'' err]))"
  using assms
  by (cases "GetChecksum (checksum_reply w)"; cases "GetVersion L (version_reply w)";
      cases "SendWebHook s (Sprintf_backquoted check)
               (Sprintf_backquoted (time_String L version)) (webhook_reply w)")
     (simp add: tick_def split: option.splits)

lemma tick_same:
  assumes "snd (GetChecksum (checksum_reply w)) = Inr check"
      and "snd (GetVersion L (version_reply w)) = Inr version"
      and "CheckSum arcdps \<noteq> []"
      and "CheckSum arcdps = check"
  shows "tick L s w arcdps
           = (arcdps, fst (GetChecksum (checksum_reply w)) @ fst (GetVersion L (version_reply w)))"
  using assms
  by (cases "GetChecksum (checksum_reply w)"; cases "GetVersion L (version_reply w)")
     (simp add: tick_def)

section \<open>GetChecksum and the checksum body\<close>

text \<open>
  C10. There are checksum bodies with two or more space-delimited pieces whose first
  piece is empty: every body that begins with a space is one. For each of them
  \<^verbatim>\<open>GetChecksum\<close> returns the empty string as the checksum, with no error.
\<close>

theorem C10_GetChecksum_empty_checksum:
  "2 \<le> length (strings_Split (CHR '' '' # rest) (CHR '' ''))
   \<and> strings_Split (CHR '' '' # rest) (CHR '' '') ! 0 = []
   \<and> GetChecksum (ok_reply h (CHR '' '' # rest))
       = ([Called ''GetChecksum'' [], HTTP ''GET'' ArcDPSCheckSumURL ''''], Inr [])"
proof -
  have len: "\<not> length (strings_Split (CHR '' '' # rest) (CHR '' '')) < 2"
    by (simp add: strings_Split_length)
  have first: "strings_Split (CHR '' '' # rest) (CHR '' '') ! 0 = []"
    by (simp add: strings_Split_first)
  show ?thesis
    using len first by (simp add: GetChecksum_def ok_reply_def)
qed

theorem C10_GetChecksum_empty_checksum_witness:
  "GetChecksum (ok_reply ''Tue, 01 Mar 2022 12:00:00 GMT'' '' d3d9.dll'')
     = ([Called ''GetChecksum'' [], HTTP ''GET'' ArcDPSCheckSumURL ''''], Inr [])"
  using C10_GetChecksum_empty_checksum [of "''d3d9.dll''" "''Tue, 01 Mar 2022 12:00:00 GMT''"]
  by simp

text \<open>
  C6, as the specification words it, fails in both directions. The body \<^verbatim>\<open>"abc123 "\<close> has
  one whitespace-delimited token and is accepted; a body with a tab between its two
  tokens is rejected; and for a body with a leading space the result is the empty string,
  not the first token.
\<close>

theorem C6_counterexample:
  "length (spec_whitespace_tokens ''abc123 '') < 2
   \<and> snd (GetChecksum (ok_reply [] ''abc123 '')) = Inr ''abc123''
   \<and> spec_whitespace_tokens (''abc123'' @ [CHR 0x09] @ ''d3d9.dll'') = [''abc123'', ''d3d9.dll'']
   \<and> snd (GetChecksum (ok_reply [] (''abc123'' @ [CHR 0x09] @ ''d3d9.dll''))) = Inl IncorrectSplit
   \<and> spec_whitespace_tokens '' abc123 d3d9.dll'' = [''abc123'', ''d3d9.dll'']
   \<and> snd (GetChecksum (ok_reply [] '' abc123 d3d9.dll'')) = Inr []"
  by (simp add: spec_whitespace_tokens_def spec_is_whitespace_def GetChecksum_def ok_reply_def
        strings_Split_length strings_Split_first)

text \<open>
  C6, amended. For a response with a status of at most 299 whose body could be read,
  \<^verbatim>\<open>GetChecksum\<close> returns the error "incorrect size of checksum split" exactly when the
  body contains no space character, and otherwise returns what stands before the first
  space of the body (possibly nothing). The single-request variant does the same once the
  \<^verbatim>\<open>Last-Modified\<close> header has parsed.
\<close>

theorem C6_GetChecksum_splits_on_space:
  assumes "Body resp = Inr body" and "StatusCode resp \<le> 299"
  shows "snd (GetChecksum (Reply resp))
           = (if CHR '' '' \<in> set body
              then Inr (takeWhile (\<lambda>c. c \<noteq> CHR '' '') body)
              else Inl IncorrectSplit)
         \<and> (\<forall>t. time_Parse_RFC1123 L (Last_Modified resp) = Some t \<longrightarrow>
              snd (GetChecksum_part000 L (Reply resp))
                = (if CHR '' '' \<in> set body
                   then Inr \<lparr>Checksum = takeWhile (\<lambda>c. c \<noteq> CHR '' '') body, LastModified = t\<rparr>
                   else Inl IncorrectSplit))"
  using assms
  by (simp add: GetChecksum_def GetChecksum_part000_def Let_def
        strings_Split_length strings_Split_first)

theorem C6_GetChecksum_splits_on_space_witness:
  "snd (GetChecksum (ok_reply ''Tue, 01 Mar 2022 12:00:00 GMT'' ''abc123  d3d9.dll\<newline>''))
     = Inr ''abc123''
   \<and> snd (GetChecksum_part000 sample_lib
            (ok_reply ''Tue, 01 Mar 2022 12:00:00 GMT'' ''abc123  d3d9.dll\<newline>''))
     = Inr \<lparr>Checksum = ''abc123'', LastModified = 1646136000\<rparr>
   \<and> snd (GetChecksum (ok_reply ''Tue, 01 Mar 2022 12:00:00 GMT'' ''abc123\<newline>''))
     = Inl IncorrectSplit"
  using C6_GetChecksum_splits_on_space
          [of "\<lparr>StatusCode = 200, Last_Modified = ''Tue, 01 Mar 2022 12:00:00 GMT'',
                 Body = Inr ''abc123  d3d9.dll\<newline>''\<rparr>" "''abc123  d3d9.dll\<newline>''" sample_lib]
        C6_GetChecksum_splits_on_space
          [of "\<lparr>StatusCode = 200, Last_Modified = ''Tue, 01 Mar 2022 12:00:00 GMT'',
                 Body = Inr ''abc123\<newline>''\<rparr>" "''abc123\<newline>''" sample_lib]
  by (simp add: ok_reply_def sample_lib_def sample_Parse_def)

section \<open>One poll tick\<close>

text \<open>
  C1. In a tick in which both fetches succeed, the record's checksum is not empty and the
  fetched checksum differs from it, \<^verbatim>\<open>SendWebHook\<close> is invoked exactly once, with the new
  checksum (between backquotes) and the new timestamp; at most one POST goes out, and its
  body is the payload rendered from them; and the record becomes the fetched checksum and
  timestamp. Nothing is assumed of the webhook's answer, so this holds as well when the
  notification fails.
\<close>

theorem C1_changed_checksum_notifies_once_and_adopts:
  assumes "snd (GetChecksum (checksum_reply w)) = Inr check"
      and "snd (GetVersion L (version_reply w)) = Inr version"
      and "CheckSum arcdps \<noteq> []"
      and "check \<noteq> CheckSum arcdps"
  shows "notifications (snd (tick L s w arcdps))
           = [[Sprintf_backquoted check, Sprintf_backquoted (time_String L version)]]
         \<and> posts (snd (tick L s w arcdps))
           = (case webhook_reply w of
                NoRequest err \<Rightarrow> []
              | _ \<Rightarrow> [(webhookURL s,
                        Sprintf_PayloadJSON (Sprintf_backquoted check)
                          (Sprintf_backquoted (time_String L version))
                          DefaultTickDuration_String)])
         \<and> fst (tick L s w arcdps) = \<lparr>Timestamp = version, CheckSum = check\<rparr>"
proof -
  have "CheckSum arcdps \<noteq> check"
    using assms(4) by simp
  note t = tick_changed [OF assms(1) assms(2) assms(3) this]
  show ?thesis
    unfolding t
    by (simp add: notifications_append posts_append GetChecksum_quiet GetVersion_quiet
          SendWebHook_notifications SendWebHook_posts log_tail_quiet)
qed

text \<open>The example of the specification, with a webhook that answers 500.\<close>

theorem C1_changed_checksum_notifies_once_and_adopts_witness:
  "notifications (snd (tick sample_lib sample_server
       (sample_world ''Wed, 02 Mar 2022 08:30:00 GMT'' ''def456  d3d9.dll\<newline>''
          (Reply \<lparr>StatusCode = 500, Last_Modified = [], Body = Inr ''down''\<rparr>))
       \<lparr>Timestamp = 1646136000, CheckSum = ''abc123''\<rparr>))
     = [[''`def456`'', ''`2022-03-02 08:30:00 +0000 GMT`'']]
   \<and> fst (tick sample_lib sample_server
       (sample_world ''Wed, 02 Mar 2022 08:30:00 GMT'' ''def456  d3d9.dll\<newline>''
          (Reply \<lparr>StatusCode = 500, Last_Modified = [], Body = Inr ''down''\<rparr>))
       \<lparr>Timestamp = 1646136000, CheckSum = ''abc123''\<rparr>)
     = \<lparr>Timestamp = 1646209800, CheckSum = ''def456''\<rparr>"
  using C1_changed_checksum_notifies_once_and_adopts
          [of "sample_world ''Wed, 02 Mar 2022 08:30:00 GMT'' ''def456  d3d9.dll\<newline>''
                 (Reply \<lparr>StatusCode = 500, Last_Modified = [], Body = Inr ''down''\<rparr>)"
              "''def456''" sample_lib 1646209800
              "\<lparr>Timestamp = 1646136000, CheckSum = ''abc123''\<rparr>" sample_server]
  by (simp add: sample_world_def GetChecksum_ok_reply GetVersion_ok_reply sample_lib_def
        sample_Parse_def sample_String_def Sprintf_backquoted_def)

text \<open>
  C2. In a tick in which \<^verbatim>\<open>GetChecksum\<close> or \<^verbatim>\<open>GetVersion\<close> returns an error (whatever the
  cause: no response or a timeout, an unreadable body, a status above 299, a body that
  does not split, a header that does not parse), the record is what it was, \<^verbatim>\<open>SendWebHook\<close>
  is not invoked and no POST is made.
\<close>

theorem C2_fetch_error_skips_tick:
  assumes "isl (snd (GetChecksum (checksum_reply w)))
           \<or> isl (snd (GetVersion L (version_reply w)))"
  shows "fst (tick L s w arcdps) = arcdps
         \<and> notifications (snd (tick L s w arcdps)) = []
         \<and> posts (snd (tick L s w arcdps)) = []"
proof (cases "snd (GetChecksum (checksum_reply w))")
  case (Inl err)
  show ?thesis
    unfolding tick_checksum_error [OF Inl]
    by (simp add: notifications_append posts_append GetChecksum_quiet)
next
  case (Inr check)
  with assms obtain err where e: "snd (GetVersion L (version_reply w)) = Inl err"
    by (cases "snd (GetVersion L (version_reply w))") auto
  show ?thesis
    unfolding tick_version_error [OF Inr e]
    by (simp add: notifications_append posts_append GetChecksum_quiet GetVersion_quiet)
qed

text \<open>A checksum fetch answered with status 500; a version fetch that times out.\<close>

theorem C2_fetch_error_skips_tick_witness:
  "fst (tick sample_lib sample_server
         \<lparr>checksum_reply = Reply \<lparr>StatusCode = 500, Last_Modified = [], Body = Inr ''oops''\<rparr>,
           version_reply = ok_reply ''Wed, 02 Mar 2022 08:30:00 GMT'' [],
           webhook_reply = ok_reply [] []\<rparr>
         \<lparr>Timestamp = 1646136000, CheckSum = ''abc123''\<rparr>)
     = \<lparr>Timestamp = 1646136000, CheckSum = ''abc123''\<rparr>
   \<and> notifications (snd (tick sample_lib sample_server
         \<lparr>checksum_reply = ok_reply [] ''def456  d3d9.dll\<newline>'',
           version_reply = NoResponse (DoError ''context deadline exceeded''),
           webhook_reply = ok_reply [] []\<rparr>
         \<lparr>Timestamp = 1646136000, CheckSum = ''abc123''\<rparr>)) = []"
  using C2_fetch_error_skips_tick
          [of "\<lparr>checksum_reply = Reply \<lparr>StatusCode = 500, Last_Modified = [], Body = Inr ''oops''\<rparr>,
                 version_reply = ok_reply ''Wed, 02 Mar 2022 08:30:00 GMT'' [],
                 webhook_reply = ok_reply [] []\<rparr>"
              sample_lib sample_server "\<lparr>Timestamp = 1646136000, CheckSum = ''abc123''\<rparr>"]
        C2_fetch_error_skips_tick
          [of "\<lparr>checksum_reply = ok_reply [] ''def456  d3d9.dll\<newline>'',
                 version_reply = NoResponse (DoError ''context deadline exceeded''),
                 webhook_reply = ok_reply [] []\<rparr>"
              sample_lib sample_server "\<lparr>Timestamp = 1646136000, CheckSum = ''abc123''\<rparr>"]
  by (simp add: GetChecksum_error_iff GetVersion_error_iff)

text \<open>
  C3. In a tick in which the record's checksum is empty and both fetches succeed, the
  record becomes the fetched checksum and timestamp, \<^verbatim>\<open>SendWebHook\<close> is not invoked and no
  POST is made.
\<close>

theorem C3_first_fetch_is_silent_baseline:
  assumes "CheckSum arcdps = []"
      and "snd (GetChecksum (checksum_reply w)) = Inr check"
      and "snd (GetVersion L (version_reply w)) = Inr version"
  shows "fst (tick L s w arcdps) = \<lparr>Timestamp = version, CheckSum = check\<rparr>
         \<and> notifications (snd (tick L s w arcdps)) = []
         \<and> posts (snd (tick L s w arcdps)) = []"
  unfolding tick_initial [OF assms(2) assms(3) assms(1)]
  by (simp add: notifications_append posts_append GetChecksum_quiet GetVersion_quiet)

theorem C3_first_fetch_is_silent_baseline_witness:
  "fst (tick sample_lib sample_server
         (sample_world ''Tue, 01 Mar 2022 12:00:00 GMT'' ''abc123  d3d9.dll\<newline>'' (ok_reply [] []))
         \<lparr>Timestamp = zero_Time, CheckSum = []\<rparr>)
     = \<lparr>Timestamp = 1646136000, CheckSum = ''abc123''\<rparr>
   \<and> notifications (snd (tick sample_lib sample_server
         (sample_world ''Tue, 01 Mar 2022 12:00:00 GMT'' ''abc123  d3d9.dll\<newline>'' (ok_reply [] []))
         \<lparr>Timestamp = zero_Time, CheckSum = []\<rparr>)) = []"
  using C3_first_fetch_is_silent_baseline
          [of "\<lparr>Timestamp = zero_Time, CheckSum = []\<rparr>"
              "sample_world ''Tue, 01 Mar 2022 12:00:00 GMT'' ''abc123  d3d9.dll\<newline>'' (ok_reply [] [])"
              "''abc123''" sample_lib 1646136000 sample_server]
  by (simp add: sample_world_def GetChecksum_ok_reply GetVersion_ok_reply sample_lib_def
        sample_Parse_def)

section \<open>Ticks in sequence\<close>

text \<open>What a tick can do to the record and to the list of notifications, in one statement.\<close>

lemma tick_outcomes:
  "(fst (tick L s w arcdps) = arcdps \<and> notifications (snd (tick L s w arcdps)) = [])
   \<or> (\<exists>check version.
         snd (GetChecksum (checksum_reply w)) = Inr check
         \<and> snd (GetVersion L (version_reply w)) = Inr version
         \<and> fst (tick L s w arcdps) = \<lparr>Timestamp = version, CheckSum = check\<rparr>
         \<and> (if CheckSum arcdps = [] then notifications (snd (tick L s w arcdps)) = []
             else CheckSum arcdps \<noteq> check
                  \<and> notifications (snd (tick L s w arcdps))
                      = [[Sprintf_backquoted check,
                          Sprintf_backquoted (time_String L version)]]))"
proof (cases "snd (GetChecksum (checksum_reply w))")
  case (Inl err)
  show ?thesis
    unfolding tick_checksum_error [OF Inl]
    by (simp add: notifications_append GetChecksum_quiet)
next
  case c: (Inr check)
  show ?thesis
  proof (cases "snd (GetVersion L (version_reply w))")
    case (Inl err)
    show ?thesis
      unfolding tick_version_error [OF c Inl]
      by (simp add: notifications_append GetChecksum_quiet GetVersion_quiet)
  next
    case v: (Inr version)
    consider "CheckSum arcdps = []"
      | "CheckSum arcdps \<noteq> []" "CheckSum arcdps \<noteq> check"
      | "CheckSum arcdps \<noteq> []" "CheckSum arcdps = check"
      by blast
    then show ?thesis
    proof cases
      case 1
      show ?thesis
        unfolding tick_initial [OF c v 1] using 1 c v
        by (simp add: notifications_append GetChecksum_quiet GetVersion_quiet)
    next
      case 2
      show ?thesis
        unfolding tick_changed [OF c v 2] using 2 c v
        by (simp add: notifications_append GetChecksum_quiet GetVersion_quiet
              SendWebHook_notifications log_tail_quiet)
    next
      case 3
      show ?thesis
        unfolding tick_same [OF c v 3]
        by (simp add: notifications_append GetChecksum_quiet GetVersion_quiet)
    qed
  qed
qed

lemma tick_quiet_when_checksum_known:
  assumes "snd (GetChecksum (checksum_reply w)) = Inr (CheckSum arcdps)"
  shows "notifications (snd (tick L s w arcdps)) = []"
  using tick_outcomes [of L s w arcdps] assms by (auto split: if_splits)

lemma tick_part000_outcomes:
  "fst (tick_part000 L s w arcdps) = arcdps
   \<or> (\<exists>check.
         snd (GetChecksum_part000 L (checksum_reply w)) = Inr check
         \<and> fst (tick_part000 L s w arcdps)
             = \<lparr>Timestamp = LastModified check, CheckSum = Checksum check\<rparr>)"
proof (cases "GetChecksum_part000 L (checksum_reply w)")
  case (Pair ev1 r)
  show ?thesis
  proof (cases r)
    case (Inl err)
    with Pair show ?thesis
      by (simp add: tick_part000_def)
  next
    case (Inr check)
    with Pair show ?thesis
      by (cases "SendWebHook s (Sprintf_backquoted (Checksum check))
                   (Sprintf_backquoted (time_String L (LastModified check))) (webhook_reply w)")
         (simp add: tick_part000_def split: option.splits)
  qed
qed

lemma tick_checksum_after:
  "CheckSum (fst (tick L s w arcdps)) = CheckSum arcdps
   \<or> snd (GetChecksum (checksum_reply w)) = Inr (CheckSum (fst (tick L s w arcdps)))"
  using tick_outcomes [of L s w arcdps] by auto

lemma Tick_loop_keeps_checksum_set:
  assumes "CheckSum arcdps \<noteq> []"
      and "\<forall>w. ticker_C w \<in> set cs \<longrightarrow> snd (GetChecksum (checksum_reply w)) \<noteq> Inr []"
  shows "CheckSum (fst (snd (Tick_loop L s cs arcdps tr))) \<noteq> []"
  using assms
proof (induction cs arbitrary: arcdps tr)
  case Nil
  then show ?case by simp
next
  case (Cons c cs)
  show ?case
  proof (cases c)
    case ctx_Done
    with Cons.prems show ?thesis by simp
  next
    case (ticker_C w)
    obtain a' ev where t: "tick L s w arcdps = (a', ev)"
      by (cases "tick L s w arcdps") simp
    have "snd (GetChecksum (checksum_reply w)) \<noteq> Inr []"
      using Cons.prems(2) ticker_C by simp
    then have "CheckSum a' \<noteq> []"
      using tick_checksum_after [of L s w arcdps] t Cons.prems(1) by auto
    moreover have "\<forall>w. ticker_C w \<in> set cs \<longrightarrow> snd (GetChecksum (checksum_reply w)) \<noteq> Inr []"
      using Cons.prems(2) by simp
    ultimately have "CheckSum (fst (snd (Tick_loop L s cs a' (tr @ ev)))) \<noteq> []"
      by (rule Cons.IH)
    then show ?thesis
      using ticker_C t by simp
  qed
qed

lemma Tick_loop_record_from_one_fetch:
  "fst (snd (Tick_loop L s cs arcdps tr)) = arcdps
   \<or> (\<exists>w check version.
         ticker_C w \<in> set cs
         \<and> snd (GetChecksum (checksum_reply w)) = Inr check
         \<and> snd (GetVersion L (version_reply w)) = Inr version
         \<and> fst (snd (Tick_loop L s cs arcdps tr)) = \<lparr>Timestamp = version, CheckSum = check\<rparr>)"
proof (induction cs arbitrary: arcdps tr)
  case Nil
  then show ?case by simp
next
  case (Cons c cs)
  show ?case
  proof (cases c)
    case ctx_Done
    then show ?thesis by simp
  next
    case (ticker_C w)
    obtain a' ev where t: "tick L s w arcdps = (a', ev)"
      by (cases "tick L s w arcdps") simp
    have step: "Tick_loop L s (c # cs) arcdps tr = Tick_loop L s cs a' (tr @ ev)"
      using ticker_C t by simp
    from Cons.IH [of a' "tr @ ev"] show ?thesis
    proof
      assume same: "fst (snd (Tick_loop L s cs a' (tr @ ev))) = a'"
      from tick_outcomes [of L s w arcdps] show ?thesis
      proof
        assume "fst (tick L s w arcdps) = arcdps \<and> notifications (snd (tick L s w arcdps)) = []"
        then show ?thesis using same t step by simp
      next
        assume "\<exists>check version.
         snd (GetChecksum (checksum_reply w)) = Inr check
         \<and> snd (GetVersion L (version_reply w)) = Inr version
         \<and> fst (tick L s w arcdps) = \<lparr>Timestamp = version, CheckSum = check\<rparr>
         \<and> (if CheckSum arcdps = [] then notifications (snd (tick L s w arcdps)) = []
             else CheckSum arcdps \<noteq> check
                  \<and> notifications (snd (tick L s w arcdps))
                      = [[Sprintf_backquoted check,
                          Sprintf_backquoted (time_String L version)]])"
        then obtain check version where
          "snd (GetChecksum (checksum_reply w)) = Inr check"
          "snd (GetVersion L (version_reply w)) = Inr version"
          "a' = \<lparr>Timestamp = version, CheckSum = check\<rparr>"
          using t by auto
        then show ?thesis
          using same step ticker_C by auto
      qed
    next
      assume "\<exists>w check version.
         ticker_C w \<in> set cs
         \<and> snd (GetChecksum (checksum_reply w)) = Inr check
         \<and> snd (GetVersion L (version_reply w)) = Inr version
         \<and> fst (snd (Tick_loop L s cs a' (tr @ ev))) = \<lparr>Timestamp = version, CheckSum = check\<rparr>"
      then show ?thesis
        using step by auto
    qed
  qed
qed

lemma two_ticks_notify_at_most_once:
  assumes "snd (GetChecksum (checksum_reply w2)) = snd (GetChecksum (checksum_reply w1))"
  shows "length (notifications (snd (tick L s w1 arcdps))
                 @ notifications (snd (tick L s w2 (fst (tick L s w1 arcdps))))) \<le> 1"
proof (cases "notifications (snd (tick L s w1 arcdps)) = []")
  case True
  then show ?thesis
    using tick_outcomes [of L s w2 "fst (tick L s w1 arcdps)"] by (auto split: if_splits)
next
  case False
  then obtain check version where
      c: "snd (GetChecksum (checksum_reply w1)) = Inr check"
    and r: "fst (tick L s w1 arcdps) = \<lparr>Timestamp = version, CheckSum = check\<rparr>"
    and n: "length (notifications (snd (tick L s w1 arcdps))) = 1"
    using tick_outcomes [of L s w1 arcdps] by (auto split: if_splits)
  have "snd (GetChecksum (checksum_reply w2)) = Inr (CheckSum (fst (tick L s w1 arcdps)))"
    using assms c r by simp
  then have "notifications (snd (tick L s w2 (fst (tick L s w1 arcdps)))) = []"
    by (rule tick_quiet_when_checksum_known)
  then show ?thesis
    using n by simp
qed

lemma Tick_two_ticks:
  "Tick L s [ticker_C w1, ticker_C w2] arcdps
     = (Running, fst (tick L s w2 (fst (tick L s w1 arcdps))),
        [Infof ''Starting Check Ticker''] @ snd (tick L s w1 arcdps)
          @ snd (tick L s w2 (fst (tick L s w1 arcdps))))"
  by (simp add: Tick_def split: prod.splits)

section \<open>The compare logic\<close>

text \<open>
  C7. In a tick in which both fetches succeed and the fetched checksum equals the record's
  non-empty checksum, the record (checksum and timestamp) is unchanged, \<^verbatim>\<open>SendWebHook\<close> is
  not invoked and no POST is made. And two ticks in a row whose checksum fetches give the
  same result invoke \<^verbatim>\<open>SendWebHook\<close> at most once between them, from any record.
\<close>

theorem C7_unchanged_checksum_is_no_action:
  "(snd (GetChecksum (checksum_reply w)) = Inr (CheckSum arcdps)
      \<and> snd (GetVersion L (version_reply w)) = Inr version
      \<and> CheckSum arcdps \<noteq> []
    \<longrightarrow> fst (tick L s w arcdps) = arcdps
        \<and> notifications (snd (tick L s w arcdps)) = []
        \<and> posts (snd (tick L s w arcdps)) = [])
   \<and> (snd (GetChecksum (checksum_reply w2)) = snd (GetChecksum (checksum_reply w1))
    \<longrightarrow> length (notifications (snd (snd (Tick L s [ticker_C w1, ticker_C w2] arcdps)))) \<le> 1)"
proof (intro conjI impI)
  assume a: "snd (GetChecksum (checksum_reply w)) = Inr (CheckSum arcdps)
      \<and> snd (GetVersion L (version_reply w)) = Inr version
      \<and> CheckSum arcdps \<noteq> []"
  then have c: "snd (GetChecksum (checksum_reply w)) = Inr (CheckSum arcdps)"
    and v: "snd (GetVersion L (version_reply w)) = Inr version"
    and n: "CheckSum arcdps \<noteq> []"
    by simp_all
  note t = tick_same [OF c v n refl]
  show "fst (tick L s w arcdps) = arcdps"
    unfolding t by simp
  show "notifications (snd (tick L s w arcdps)) = []"
    unfolding t by (simp add: notifications_append GetChecksum_quiet GetVersion_quiet)
  show "posts (snd (tick L s w arcdps)) = []"
    unfolding t by (simp add: posts_append GetChecksum_quiet GetVersion_quiet)
next
  assume "snd (GetChecksum (checksum_reply w2)) = snd (GetChecksum (checksum_reply w1))"
  then show "length (notifications (snd (snd (Tick L s [ticker_C w1, ticker_C w2] arcdps)))) \<le> 1"
    using two_ticks_notify_at_most_once [of w2 w1 L s arcdps]
    by (simp add: Tick_two_ticks notifications_append)
qed

text \<open>
  The example of the specification (stored and fetched checksum \<^verbatim>\<open>abc123\<close>), and the same
  new checksum fetched twice: one notification, not two.
\<close>

theorem C7_unchanged_checksum_is_no_action_witness:
  "fst (tick sample_lib sample_server
         (sample_world ''Wed, 02 Mar 2022 08:30:00 GMT'' ''abc123  d3d9.dll\<newline>'' (ok_reply [] []))
         \<lparr>Timestamp = 1646136000, CheckSum = ''abc123''\<rparr>)
     = \<lparr>Timestamp = 1646136000, CheckSum = ''abc123''\<rparr>
   \<and> notifications (snd (tick sample_lib sample_server
         (sample_world ''Wed, 02 Mar 2022 08:30:00 GMT'' ''abc123  d3d9.dll\<newline>'' (ok_reply [] []))
         \<lparr>Timestamp = 1646136000, CheckSum = ''abc123''\<rparr>)) = []
   \<and> length (notifications (snd (snd (Tick sample_lib sample_server
         [ticker_C (sample_world ''Wed, 02 Mar 2022 08:30:00 GMT'' ''def456  d3d9.dll\<newline>''
                      (ok_reply [] [])),
          ticker_C (sample_world ''Wed, 02 Mar 2022 08:30:00 GMT'' ''def456  d3d9.dll\<newline>''
                      (ok_reply [] []))]
         \<lparr>Timestamp = 1646136000, CheckSum = ''abc123''\<rparr>)))) \<le> 1"
  using C7_unchanged_checksum_is_no_action
          [of "sample_world ''Wed, 02 Mar 2022 08:30:00 GMT'' ''abc123  d3d9.dll\<newline>''
                 (ok_reply [] [])"
              "\<lparr>Timestamp = 1646136000, CheckSum = ''abc123''\<rparr>" sample_lib 1646209800
              sample_server
              "sample_world ''Wed, 02 Mar 2022 08:30:00 GMT'' ''def456  d3d9.dll\<newline>''
                 (ok_reply [] [])"
              "sample_world ''Wed, 02 Mar 2022 08:30:00 GMT'' ''def456  d3d9.dll\<newline>''
                 (ok_reply [] [])"]
  by (simp add: sample_world_def GetChecksum_ok_reply GetVersion_ok_reply sample_lib_def
        sample_Parse_def)

text \<open>
  C9. A tick either leaves the record as it was or sets both fields, to the checksum and
  the timestamp that the fetches of that same tick returned; so does the tick of the
  single-request variant, with the two fields of the one \<^verbatim>\<open>Checksum\<close> it fetched. Over any
  run of the loop the record is the initial one or the pair fetched in one of its ticks.
\<close>

theorem C9_checksum_and_timestamp_set_together:
  "(fst (tick L s w arcdps) = arcdps
      \<or> (\<exists>check version.
            snd (GetChecksum (checksum_reply w)) = Inr check
            \<and> snd (GetVersion L (version_reply w)) = Inr version
            \<and> fst (tick L s w arcdps) = \<lparr>Timestamp = version, CheckSum = check\<rparr>))
   \<and> (fst (tick_part000 L s w arcdps) = arcdps
      \<or> (\<exists>check.
            snd (GetChecksum_part000 L (checksum_reply w)) = Inr check
            \<and> fst (tick_part000 L s w arcdps)
                = \<lparr>Timestamp = LastModified check, CheckSum = Checksum check\<rparr>))
   \<and> (fst (snd (Tick L s cs arcdps)) = arcdps
      \<or> (\<exists>w check version.
            ticker_C w \<in> set cs
            \<and> snd (GetChecksum (checksum_reply w)) = Inr check
            \<and> snd (GetVersion L (version_reply w)) = Inr version
            \<and> fst (snd (Tick L s cs arcdps)) = \<lparr>Timestamp = version, CheckSum = check\<rparr>))"
proof (intro conjI)
  show "fst (tick L s w arcdps) = arcdps
      \<or> (\<exists>check version.
            snd (GetChecksum (checksum_reply w)) = Inr check
            \<and> snd (GetVersion L (version_reply w)) = Inr version
            \<and> fst (tick L s w arcdps) = \<lparr>Timestamp = version, CheckSum = check\<rparr>)"
    using tick_outcomes [of L s w arcdps] by blast
  show "fst (tick_part000 L s w arcdps) = arcdps
      \<or> (\<exists>check.
            snd (GetChecksum_part000 L (checksum_reply w)) = Inr check
            \<and> fst (tick_part000 L s w arcdps)
                = \<lparr>Timestamp = LastModified check, CheckSum = Checksum check\<rparr>)"
    by (rule tick_part000_outcomes)
  show "fst (snd (Tick L s cs arcdps)) = arcdps
      \<or> (\<exists>w check version.
            ticker_C w \<in> set cs
            \<and> snd (GetChecksum (checksum_reply w)) = Inr check
            \<and> snd (GetVersion L (version_reply w)) = Inr version
            \<and> fst (snd (Tick L s cs arcdps)) = \<lparr>Timestamp = version, CheckSum = check\<rparr>)"
    unfolding Tick_def by (rule Tick_loop_record_from_one_fetch)
qed

text \<open>A tick that fetches a new checksum: of the two records the theorem allows, the second.\<close>

theorem C9_checksum_and_timestamp_set_together_witness:
  "fst (tick sample_lib sample_server
         (sample_world ''Wed, 02 Mar 2022 08:30:00 GMT'' ''def456  d3d9.dll\<newline>'' (ok_reply [] []))
         \<lparr>Timestamp = 1646136000, CheckSum = ''abc123''\<rparr>)
     = \<lparr>Timestamp = 1646136000, CheckSum = ''abc123''\<rparr>
   \<or> fst (tick sample_lib sample_server
         (sample_world ''Wed, 02 Mar 2022 08:30:00 GMT'' ''def456  d3d9.dll\<newline>'' (ok_reply [] []))
         \<lparr>Timestamp = 1646136000, CheckSum = ''abc123''\<rparr>)
     = \<lparr>Timestamp = 1646209800, CheckSum = ''def456''\<rparr>"
  using C9_checksum_and_timestamp_set_together
          [of sample_lib sample_server
              "sample_world ''Wed, 02 Mar 2022 08:30:00 GMT'' ''def456  d3d9.dll\<newline>''
                 (ok_reply [] [])"
              "\<lparr>Timestamp = 1646136000, CheckSum = ''abc123''\<rparr>" "[]"]
  by (auto simp add: sample_world_def GetChecksum_ok_reply GetVersion_ok_reply sample_lib_def
        sample_Parse_def)

text \<open>
  C5, as the specification words it, fails: from the empty record a first fetch sets the
  checksum \<^verbatim>\<open>abc123\<close>, and a second fetch, whose body begins with a space, succeeds with
  the empty checksum, which the tick adopts (after notifying).
\<close>

theorem C5_counterexample:
  "CheckSum (fst (snd (Tick sample_lib sample_server
       [ticker_C (sample_world ''Tue, 01 Mar 2022 12:00:00 GMT'' ''abc123  d3d9.dll\<newline>''
                    (ok_reply [] []))]
       \<lparr>Timestamp = zero_Time, CheckSum = []\<rparr>))) = ''abc123''
   \<and> CheckSum (fst (snd (Tick sample_lib sample_server
       [ticker_C (sample_world ''Tue, 01 Mar 2022 12:00:00 GMT'' ''abc123  d3d9.dll\<newline>''
                    (ok_reply [] [])),
        ticker_C (sample_world ''Wed, 02 Mar 2022 08:30:00 GMT'' '' d3d9.dll\<newline>''
                    (ok_reply [] []))]
       \<lparr>Timestamp = zero_Time, CheckSum = []\<rparr>))) = []"
  by (simp add: Tick_def tick_def sample_world_def GetChecksum_def GetVersion_def ok_reply_def
        strings_Split_length strings_Split_first sample_lib_def sample_Parse_def
        SendWebHook_def Let_def)

text \<open>
  C5, amended. A tick leaves the record's checksum as it was or replaces it with the
  checksum its fetch returned; so once the checksum is not empty it stays not empty over
  any run of the loop in which no checksum fetch returns the empty string.
\<close>

theorem C5_checksum_stays_set_while_fetches_nonempty:
  "(CheckSum (fst (tick L s w arcdps)) = CheckSum arcdps
      \<or> snd (GetChecksum (checksum_reply w)) = Inr (CheckSum (fst (tick L s w arcdps))))
   \<and> (CheckSum arcdps \<noteq> []
      \<and> (\<forall>w. ticker_C w \<in> set cs \<longrightarrow> snd (GetChecksum (checksum_reply w)) \<noteq> Inr [])
    \<longrightarrow> CheckSum (fst (snd (Tick L s cs arcdps))) \<noteq> [])"
  using tick_checksum_after [of L s w arcdps]
        Tick_loop_keeps_checksum_set [of arcdps cs L s "[Infof ''Starting Check Ticker'']"]
  by (simp add: Tick_def)

theorem C5_checksum_stays_set_while_fetches_nonempty_witness:
  "CheckSum (fst (snd (Tick sample_lib sample_server
       [ticker_C (sample_world ''Wed, 02 Mar 2022 08:30:00 GMT'' ''def456  d3d9.dll\<newline>''
                    (ok_reply [] [])),
        ctx_Done]
       \<lparr>Timestamp = 1646136000, CheckSum = ''abc123''\<rparr>))) \<noteq> []"
  using C5_checksum_stays_set_while_fetches_nonempty
          [of sample_lib sample_server
              "sample_world ''Wed, 02 Mar 2022 08:30:00 GMT'' ''def456  d3d9.dll\<newline>''
                 (ok_reply [] [])"
              "\<lparr>Timestamp = 1646136000, CheckSum = ''abc123''\<rparr>"
              "[ticker_C (sample_world ''Wed, 02 Mar 2022 08:30:00 GMT'' ''def456  d3d9.dll\<newline>''
                    (ok_reply [] [])),
                ctx_Done]"]
  by (simp add: sample_world_def GetChecksum_ok_reply)

section \<open>The webhook's status code\<close>

text \<open>
  C8, as the specification words it, fails: the status 101 (Switching Protocols, which
  the HTTP client hands back as a final response) is not a 2xx status, and \<^verbatim>\<open>SendWebHook\<close>
  returns \<^verbatim>\<open>nil\<close> for it.
\<close>

theorem C8_counterexample:
  "snd (SendWebHook sample_server ''`def456`'' ''`2022-03-02 08:30:00 +0000 GMT`''
          (Reply \<lparr>StatusCode = 101, Last_Modified = [], Body = Inr []\<rparr>)) = None
   \<and> \<not> (200 \<le> StatusCode \<lparr>StatusCode = 101, Last_Modified = [], Body = Inr []\<rparr>
         \<and> StatusCode \<lparr>StatusCode = 101, Last_Modified = [], Body = Inr []\<rparr> \<le> 299)"
  by (simp add: SendWebHook_def Let_def)

text \<open>
  C8, amended. When the webhook endpoint answers, \<^verbatim>\<open>SendWebHook\<close> succeeds exactly when
  the status code is at most 299: for every 2xx status, and for the statuses below 200 as
  well. A status of 300 or more yields an error; it carries the status and the response
  body when the body could be read, and is the error of the read otherwise. Without an
  answer (the request could not be built or sent) the result is that error.
\<close>

theorem C8_SendWebHook_succeeds_up_to_299:
  "(snd (SendWebHook s checksum time (Reply resp)) = None \<longleftrightarrow> StatusCode resp \<le> 299)
   \<and> (200 \<le> StatusCode resp \<and> StatusCode resp \<le> 299
      \<longrightarrow> snd (SendWebHook s checksum time (Reply resp)) = None)
   \<and> (300 \<le> StatusCode resp \<and> Body resp = Inr body
      \<longrightarrow> snd (SendWebHook s checksum time (Reply resp))
            = Some (BadResponseDiscord (StatusCode resp) body))
   \<and> (300 \<le> StatusCode resp \<and> Body resp = Inl err
      \<longrightarrow> snd (SendWebHook s checksum time (Reply resp)) = Some err)
   \<and> snd (SendWebHook s checksum time (NoRequest err)) = Some err
   \<and> snd (SendWebHook s checksum time (NoResponse err)) = Some err"
  by (simp add: SendWebHook_def Let_def split: sum.splits)

theorem C8_SendWebHook_succeeds_up_to_299_witness:
  "snd (SendWebHook sample_server ''`def456`'' ''`2022-03-02 08:30:00 +0000 GMT`''
          (Reply \<lparr>StatusCode = 204, Last_Modified = [], Body = Inr []\<rparr>)) = None
   \<and> snd (SendWebHook sample_server ''`def456`'' ''`2022-03-02 08:30:00 +0000 GMT`''
          (Reply \<lparr>StatusCode = 429, Last_Modified = [], Body = Inr ''rate limited''\<rparr>))
       = Some (BadResponseDiscord 429 ''rate limited'')"
  using C8_SendWebHook_succeeds_up_to_299
          [of sample_server "''`def456`''" "''`2022-03-02 08:30:00 +0000 GMT`''"
              "\<lparr>StatusCode = 204, Last_Modified = [], Body = Inr []\<rparr>"]
        C8_SendWebHook_succeeds_up_to_299
          [of sample_server "''`def456`''" "''`2022-03-02 08:30:00 +0000 GMT`''"
              "\<lparr>StatusCode = 429, Last_Modified = [], Body = Inr ''rate limited''\<rparr>"
              "''rate limited''"]
  by simp

section \<open>Saving the record\<close>

text \<open>
  C4. The claim is that after the save the file holds exactly the encoding of the record.
  The code rewinds and writes but never truncates: whatever the encoder renders, the file
  holds the document and, after it, what the file held beyond the length of the document.
  Here the file held the 53 bytes of a record with the checksum \<^verbatim>\<open>abc123456\<close>, the record
  saved has the checksum \<^verbatim>\<open>def456\<close> and encodes to 50 bytes, and the last three bytes of
  the old file follow the new document.
\<close>

theorem C4_main_save_leaves_old_tail:
  "main_save marshal None f arcdps
     = Inr \<lparr>contents = marshal arcdps @ drop (length (marshal arcdps)) (contents f),
            offset = length (marshal arcdps)\<rparr>
   \<and> sample_marshal \<lparr>Timestamp = 1646209800, CheckSum = ''def456''\<rparr>
     = ''timestamp: 2022-03-02T08:30:00Z\<newline>check_sum: def456\<newline>''
   \<and> main_save sample_marshal None
       \<lparr>contents = ''timestamp: 2022-03-01T12:00:00Z\<newline>check_sum: abc123456\<newline>'',
         offset = 53\<rparr>
       \<lparr>Timestamp = 1646209800, CheckSum = ''def456''\<rparr>
     = Inr \<lparr>contents = ''timestamp: 2022-03-02T08:30:00Z\<newline>check_sum: def456\<newline>56\<newline>'',
            offset = 50\<rparr>"
  by (simp add: main_save_def Encode_def Seek_def Write_def sample_marshal_def)

end
